theory Spec2Isabelle
  imports Complex_Main "HOL-Library.AList" "HOL-Library.Sublist"
begin

section \<open>Python values\<close>

text \<open>
  The schema documents of \<^verbatim>\<open>core/utils/generator_schema.py\<close> are JSON-shaped Python
  values. The universe modelled here is: \<^verbatim>\<open>None\<close>, \<^verbatim>\<open>bool\<close>, \<^verbatim>\<open>int\<close> (unbounded),
  finite \<^verbatim>\<open>float\<close> (by its exact rational value; NaN and the infinities, which JSON
  cannot carry, are outside), \<^verbatim>\<open>str\<close> (the list of its characters, those up to U+00FF,
  which covers every string of the source), \<^verbatim>\<open>list\<close> and \<^verbatim>\<open>dict\<close> with \<^verbatim>\<open>str\<close> keys
  (the source's \<^verbatim>\<open>Dict[str, Any]\<close>), nested less deep than the interpreter's recursion
  limit. A dict is an association list in insertion order; a
  Python dict has no repeated key, and every dict built below keeps that (a key is
  looked up by its first entry).
\<close>

datatype pyval =
    PNone
  | PBool bool
  | PInt int
  | PFloat rat
  | PStr string
  | PList "pyval list"
  | PDict "(string \<times> pyval) list"

text \<open>The exceptions the validator's operations can raise.\<close>

datatype py_error = TypeError | AttributeError | ValueError

text \<open>Sequencing of operations that may raise: the first exception ends the run.\<close>

fun and_then :: "py_error + 'a \<Rightarrow> ('a \<Rightarrow> py_error + 'b) \<Rightarrow> py_error + 'b" where
  "and_then (Inl e) f = Inl e"
| "and_then (Inr v) f = f v"

text \<open>\<^verbatim>\<open>isinstance(v, dict)\<close>.\<close>

fun is_dict :: "pyval \<Rightarrow> bool" where
  "is_dict (PDict d) = True"
| "is_dict v = False"

text \<open>Truth value testing, as \<^verbatim>\<open>not v\<close> and \<^verbatim>\<open>if v\<close> use it.\<close>

fun truthy :: "pyval \<Rightarrow> bool" where
  "truthy PNone = False"
| "truthy (PBool b) = b"
| "truthy (PInt i) = (i \<noteq> 0)"
| "truthy (PFloat r) = (r \<noteq> 0)"
| "truthy (PStr s) = (s \<noteq> [])"
| "truthy (PList xs) = (xs \<noteq> [])"
| "truthy (PDict d) = (d \<noteq> [])"

text \<open>Lists and dicts are unhashable: using one as a dict key raises \<^verbatim>\<open>TypeError\<close>.\<close>

fun hashable :: "pyval \<Rightarrow> bool" where
  "hashable (PList xs) = False"
| "hashable (PDict d) = False"
| "hashable v = True"

text \<open>
  \<^verbatim>\<open>==\<close> on values. \<^verbatim>\<open>bool\<close>, \<^verbatim>\<open>int\<close> and \<^verbatim>\<open>float\<close> compare by numeric value
  (\<^verbatim>\<open>True == 1 == 1.0\<close>), lists elementwise, dicts by having the same keys with equal
  values, whatever the insertion order.
\<close>

fun num_of :: "pyval \<Rightarrow> rat option" where
  "num_of (PBool b) = Some (if b then 1 else 0)"
| "num_of (PInt i) = Some (of_int i)"
| "num_of (PFloat r) = Some r"
| "num_of v = None"

fun py_eq :: "pyval \<Rightarrow> pyval \<Rightarrow> bool" where
  "py_eq (PList xs) y = (case y of PList ys \<Rightarrow> list_all2 py_eq xs ys | _ \<Rightarrow> False)"
| "py_eq (PDict a) y =
     (case y of
        PDict b \<Rightarrow> length a = length b \<and>
          list_all (\<lambda>(k, v). case map_of b k of None \<Rightarrow> False | Some w \<Rightarrow> py_eq v w) a
      | _ \<Rightarrow> False)"
| "py_eq (PStr s) y = (y = PStr s)"
| "py_eq PNone y = (y = PNone)"
| "py_eq x y = (case num_of x of None \<Rightarrow> False | Some a \<Rightarrow> num_of y = Some a)"

text \<open>
  \<^verbatim>\<open>x in c\<close>. On a dict it is key membership and hashes \<^verbatim>\<open>x\<close>; on a list it compares
  \<^verbatim>\<open>x\<close> with each element; on a str it is the substring test and wants a str on the
  left; any other container raises \<^verbatim>\<open>TypeError\<close> (not iterable).
\<close>

fun py_in :: "pyval \<Rightarrow> pyval \<Rightarrow> py_error + bool" where
  "py_in x (PDict d) =
     (if hashable x then Inr (case x of PStr k \<Rightarrow> map_of d k \<noteq> None | _ \<Rightarrow> False)
      else Inl TypeError)"
| "py_in x (PList xs) = Inr (list_ex (py_eq x) xs)"
| "py_in x (PStr s) = (case x of PStr t \<Rightarrow> Inr (sublist t s) | _ \<Rightarrow> Inl TypeError)"
| "py_in x c = Inl TypeError"

text \<open>\<^verbatim>\<open>c.get(key, dflt)\<close> with a str key: only a dict has the method.\<close>

fun py_get :: "pyval \<Rightarrow> string \<Rightarrow> pyval \<Rightarrow> py_error + pyval" where
  "py_get (PDict d) key dflt = Inr (case map_of d key of None \<Rightarrow> dflt | Some v \<Rightarrow> v)"
| "py_get c key dflt = Inl AttributeError"

text \<open>
  The elements a \<^verbatim>\<open>for\<close> loop over \<^verbatim>\<open>c\<close> visits: a list's elements, a str's characters,
  a dict's keys; anything else raises \<^verbatim>\<open>TypeError\<close>.
\<close>

fun py_iter :: "pyval \<Rightarrow> py_error + pyval list" where
  "py_iter (PList xs) = Inr xs"
| "py_iter (PStr s) = Inr (map (\<lambda>c. PStr [c]) s)"
| "py_iter (PDict d) = Inr (map (\<lambda>(k, v). PStr k) d)"
| "py_iter c = Inl TypeError"

text \<open>
  \<^verbatim>\<open>str(v)\<close>, as an f-string calls it on the value it formats. Converting an
  \<^verbatim>\<open>int\<close> to its decimal text raises \<^verbatim>\<open>ValueError\<close> when the int has more digits than
  the interpreter's limit \<^verbatim>\<open>sys.int_max_str_digits\<close>, 4300 by default (CPython 3.11 and
  later); the text of a list or a dict holds the text of each of its elements, so an int
  that long anywhere inside raises as well. No other value of the universe fails to
  format. The text itself is not computed: the result stands for it by the value that
  was formatted.
\<close>

definition int_max_str_digits :: nat where
  "int_max_str_digits = 4300"

fun has_long_int :: "pyval \<Rightarrow> bool" where
  "has_long_int (PInt i) = (10 ^ int_max_str_digits \<le> \<bar>i\<bar>)"
| "has_long_int (PList xs) = list_ex has_long_int xs"
| "has_long_int (PDict d) = list_ex (\<lambda>(k, v). has_long_int v) d"
| "has_long_int v = False"

definition format_value :: "pyval \<Rightarrow> py_error + pyval" where
  "format_value v = (if has_long_int v then Inl ValueError else Inr v)"

section \<open>SchemaValidator\<close>

definition required_keys :: "string list" where
  "required_keys = [''name'', ''description'', ''parameters'']"

text \<open>
  \<^verbatim>\<open>all(key in function_def for key in required_keys)\<close>: the generator stops at the
  first key that is not there.
\<close>

fun all_in :: "string list \<Rightarrow> pyval \<Rightarrow> py_error + bool" where
  "all_in [] function_def = Inr True"
| "all_in (key # keys) function_def =
     and_then (py_in (PStr key) function_def)
       (\<lambda>found. if found then all_in keys function_def else Inr False)"

text \<open>
  The loop of \<^verbatim>\<open>validate\<close> over \<^verbatim>\<open>required\<close>: \<^verbatim>\<open>return False\<close> at the first name that
  is not in \<^verbatim>\<open>properties\<close>, \<^verbatim>\<open>return True\<close> after the loop.
\<close>

fun all_required_declared :: "pyval list \<Rightarrow> pyval \<Rightarrow> py_error + bool" where
  "all_required_declared [] props = Inr True"
| "all_required_declared (req_param # rest) props =
     and_then (py_in req_param props)
       (\<lambda>found. if \<not> found then Inr False else all_required_declared rest props)"

text \<open>The body of the \<^verbatim>\<open>try\<close> block of \<^verbatim>\<open>SchemaValidator.validate\<close>.\<close>

definition validate_try :: "pyval \<Rightarrow> py_error + bool" where
  "validate_try schema =
     (if \<not> is_dict schema then Inr False
      else and_then (py_get schema ''type'' PNone) (\<lambda>ty.
        if \<not> py_eq ty (PStr ''function'') then Inr False
        else and_then (py_get schema ''function'' (PDict [])) (\<lambda>function_def.
          and_then (all_in required_keys function_def) (\<lambda>complete.
            if \<not> complete then Inr False
            else and_then (py_get function_def ''parameters'' (PDict [])) (\<lambda>params.
              and_then (py_get params ''type'' PNone) (\<lambda>pty.
                if \<not> py_eq pty (PStr ''object'') then Inr False
                else and_then (py_get params ''properties'' (PDict [])) (\<lambda>props.
                  and_then (py_get params ''required'' (PList [])) (\<lambda>req.
                    and_then (py_iter req) (\<lambda>reqs.
                      all_required_declared reqs props)))))))))"

text \<open>\<^verbatim>\<open>SchemaValidator.validate\<close>: \<^verbatim>\<open>except Exception: return False\<close>.\<close>

definition validate :: "pyval \<Rightarrow> bool" where
  "validate schema = (case validate_try schema of Inl e \<Rightarrow> False | Inr ok \<Rightarrow> ok)"

text \<open>
  The messages of \<^verbatim>\<open>get_validation_errors\<close>, one constructor per message text (the
  texts are quoted without their accents):
  \<^item> \<open>SchemaNotDict\<close>: \<^verbatim>\<open>"Schema debe ser un diccionario"\<close>
  \<^item> \<open>TypeNotFunction\<close>: \<^verbatim>\<open>"Tipo debe ser 'function'"\<close>
  \<^item> \<open>MissingFunction\<close>: \<^verbatim>\<open>"Falta definicion de 'function'"\<close>
  \<^item> \<open>MissingField key\<close>: \<^verbatim>\<open>f"Falta campo requerido: function.{key}"\<close>
  \<^item> \<open>ParamsTypeNotObject\<close>: \<^verbatim>\<open>"parameters.type debe ser 'object'"\<close>
  \<^item> \<open>RequiredNotInProperties req_param\<close>:
    \<^verbatim>\<open>f"Parametro requerido '{req_param}' no esta en properties"\<close>, which formats the
    value \<^verbatim>\<open>req_param\<close>; the constructor holds the result of \<open>format_value\<close>.
\<close>

datatype message =
    SchemaNotDict
  | TypeNotFunction
  | MissingFunction
  | MissingField string
  | ParamsTypeNotObject
  | RequiredNotInProperties pyval

text \<open>The loop of \<^verbatim>\<open>get_validation_errors\<close> over \<^verbatim>\<open>required_keys\<close>.\<close>

fun missing_fields :: "string list \<Rightarrow> pyval \<Rightarrow> message list \<Rightarrow> py_error + message list" where
  "missing_fields [] function_def errors = Inr errors"
| "missing_fields (key # keys) function_def errors =
     and_then (py_in (PStr key) function_def)
       (\<lambda>found. missing_fields keys function_def
          (if \<not> found then errors @ [MissingField key] else errors))"

text \<open>The loop of \<^verbatim>\<open>get_validation_errors\<close> over \<^verbatim>\<open>required\<close>.\<close>

fun undeclared_required :: "pyval list \<Rightarrow> pyval \<Rightarrow> message list \<Rightarrow> py_error + message list" where
  "undeclared_required [] props errors = Inr errors"
| "undeclared_required (req_param # rest) props errors =
     and_then (py_in req_param props)
       (\<lambda>found.
          if \<not> found
          then and_then (format_value req_param)
                 (\<lambda>text. undeclared_required rest props
                    (errors @ [RequiredNotInProperties text]))
          else undeclared_required rest props errors)"

text \<open>
  \<^verbatim>\<open>SchemaValidator.get_validation_errors\<close>. It has no \<^verbatim>\<open>try\<close>: an exception of an
  operation is the result \<open>Inl\<close>.
\<close>

definition get_validation_errors :: "pyval \<Rightarrow> py_error + message list" where
  "get_validation_errors schema =
     (if \<not> is_dict schema then Inr [SchemaNotDict]
      else and_then (py_get schema ''type'' PNone) (\<lambda>ty.
        let errors = (if \<not> py_eq ty (PStr ''function'') then [TypeNotFunction] else [])
        in and_then (py_get schema ''function'' PNone) (\<lambda>function_def.
          if \<not> truthy function_def then Inr (errors @ [MissingFunction])
          else and_then (missing_fields required_keys function_def errors) (\<lambda>errors.
            and_then (py_get function_def ''parameters'' (PDict [])) (\<lambda>params.
              and_then (py_get params ''type'' PNone) (\<lambda>pty.
                let errors = (if \<not> py_eq pty (PStr ''object'')
                              then errors @ [ParamsTypeNotObject] else errors)
                in and_then (py_get params ''properties'' (PDict [])) (\<lambda>props.
                  and_then (py_get params ''required'' (PList [])) (\<lambda>req.
                    and_then (py_iter req) (\<lambda>reqs.
                      undeclared_required reqs props errors)))))))))"

section \<open>ParameterConfig and SchemaGenerator\<close>

text \<open>
  The dataclass \<^verbatim>\<open>ParameterConfig\<close>. A dataclass does not check its fields at run time:
  each optional field holds a value, \<^verbatim>\<open>None\<close> (\<open>PNone\<close>) when it is absent. The fields
  \<^verbatim>\<open>enum\<close> and \<^verbatim>\<open>default\<close> are named \<open>enum_values\<close> and \<open>default_value\<close> here.
\<close>

record ParameterConfig =
  param_type :: string
  description :: string
  required :: bool
  enum_values :: pyval
  minimum :: pyval
  maximum :: pyval
  min_length :: pyval
  max_length :: pyval
  pattern :: pyval
  default_value :: pyval
  items :: pyval
  properties :: pyval

text \<open>
  The constructor call \<^verbatim>\<open>ParameterConfig(param_type=t, description=d)\<close>: every other
  field at the default the dataclass declares.
\<close>

definition parameter_config :: "string \<Rightarrow> string \<Rightarrow> ParameterConfig" where
  "parameter_config t d =
     \<lparr>param_type = t, description = d, required = False,
      enum_values = PNone, minimum = PNone, maximum = PNone,
      min_length = PNone, max_length = PNone, pattern = PNone,
      default_value = PNone, items = PNone, properties = PNone\<rparr>"

text \<open>\<^verbatim>\<open>d[key] = v\<close>: an existing key keeps its place, a new one goes last.\<close>

definition dict_set :: "(string \<times> 'v) list \<Rightarrow> string \<Rightarrow> 'v \<Rightarrow> (string \<times> 'v) list" where
  "dict_set d key v = AList.update key v d"

text \<open>\<^verbatim>\<open>SchemaGenerator._build_property\<close>: the dict \<^verbatim>\<open>prop\<close>, one assignment after the other.\<close>

definition build_property :: "ParameterConfig \<Rightarrow> (string \<times> pyval) list" where
  "build_property config =
     (let prop = [(''type'', PStr (param_type config)),
                  (''description'', PStr (description config))];
          prop = (if enum_values config \<noteq> PNone
                  then dict_set prop ''enum'' (enum_values config) else prop);
          prop = (if minimum config \<noteq> PNone
                  then dict_set prop ''minimum'' (minimum config) else prop);
          prop = (if maximum config \<noteq> PNone
                  then dict_set prop ''maximum'' (maximum config) else prop);
          prop = (if min_length config \<noteq> PNone
                  then dict_set prop ''minLength'' (min_length config) else prop);
          prop = (if max_length config \<noteq> PNone
                  then dict_set prop ''maxLength'' (max_length config) else prop);
          prop = (if pattern config \<noteq> PNone
                  then dict_set prop ''pattern'' (pattern config) else prop);
          prop = (if default_value config \<noteq> PNone
                  then dict_set prop ''default'' (default_value config) else prop);
          prop = (if param_type config = ''array'' \<and> items config \<noteq> PNone
                  then dict_set prop ''items'' (items config) else prop);
          prop = (if param_type config = ''object'' \<and> properties config \<noteq> PNone
                  then dict_set prop ''properties'' (properties config) else prop)
      in prop)"

text \<open>
  The loop of \<^verbatim>\<open>create_schema\<close> over \<^verbatim>\<open>parameters.items()\<close>. Its state is the pair of
  \<^verbatim>\<open>schema["function"]["parameters"]["properties"]\<close> and
  \<^verbatim>\<open>schema["function"]["parameters"]["required"]\<close>, the only parts of \<^verbatim>\<open>schema\<close> it
  changes.
\<close>

fun add_parameters ::
  "(string \<times> ParameterConfig) list \<Rightarrow> (string \<times> pyval) list \<times> pyval list
     \<Rightarrow> (string \<times> pyval) list \<times> pyval list" where
  "add_parameters [] (props, req) = (props, req)"
| "add_parameters ((param_name, config) # rest) (props, req) =
     add_parameters rest
       (dict_set props param_name (PDict (build_property config)),
        if required config then req @ [PStr param_name] else req)"

text \<open>\<^verbatim>\<open>SchemaGenerator.create_schema\<close>; \<^verbatim>\<open>parameters\<close> is the dict in iteration order.\<close>

definition create_schema ::
  "string \<Rightarrow> string \<Rightarrow> (string \<times> ParameterConfig) list \<Rightarrow> pyval" where
  "create_schema function_name descr parameters =
     (case add_parameters parameters ([], []) of
        (props, req) \<Rightarrow>
          PDict [(''type'', PStr ''function''),
                 (''function'', PDict [
                    (''name'', PStr function_name),
                    (''description'', PStr descr),
                    (''parameters'', PDict [
                       (''type'', PStr ''object''),
                       (''properties'', PDict props),
                       (''required'', PList req)])])])"









text \<open>
  The conditional assignment \<^verbatim>\<open>if b: prop[key] = v\<close>, the step \<^verbatim>\<open>_build_property\<close>
  repeats; used to state its result as one chain of steps.
\<close>

definition set_if ::
  "bool \<Rightarrow> string \<Rightarrow> pyval \<Rightarrow> (string \<times> pyval) list \<Rightarrow> (string \<times> pyval) list" where
  "set_if b key v prop = (if b then dict_set prop key v else prop)"

section \<open>Facts about the value operations\<close>

lemma py_eq_PStr: "py_eq x (PStr s) = (x = PStr s)"
  by (cases x) auto

lemma and_then_Inr_iff:
  "and_then m f = Inr y \<longleftrightarrow> (\<exists>v. m = Inr v \<and> f v = Inr y)"
  by (cases m) auto

lemma validate_False_iff: "validate s = False \<longleftrightarrow> validate_try s \<noteq> Inr True"
  by (auto simp: validate_def split: sum.splits)

section \<open>What validate rejects\<close>

lemma all_required_declared_missing:
  "PStr n \<in> set reqs \<Longrightarrow> map_of props n = None \<Longrightarrow>
   all_required_declared reqs (PDict props) \<noteq> Inr True"
  by (induction reqs) (auto simp: and_then_Inr_iff split: if_splits)

text \<open>
  Claim C5. \<^verbatim>\<open>validate\<close> returns \<^verbatim>\<open>False\<close>, and raises nothing, on \<^verbatim>\<open>None\<close>, on every
  value that is not a dict, on the empty dict, on \<^verbatim>\<open>{"type": "function"}\<close> and on every
  dict with no \<^verbatim>\<open>"function"\<close> key, and on every schema whose \<^verbatim>\<open>required\<close> list holds a
  name \<open>n\<close> that is not a key of its \<^verbatim>\<open>properties\<close> dict.
\<close>

theorem validate_rejects:
  "validate PNone = False
   \<and> (\<not> is_dict v \<longrightarrow> validate v = False)
   \<and> validate (PDict []) = False
   \<and> validate (PDict [(''type'', PStr ''function'')]) = False
   \<and> (map_of d ''function'' = None \<longrightarrow> validate (PDict d) = False)
   \<and> (map_of d ''function'' = Some (PDict fd)
        \<and> map_of fd ''parameters'' = Some (PDict ps)
        \<and> map_of ps ''properties'' = Some (PDict props)
        \<and> map_of ps ''required'' = Some (PList reqs)
        \<and> PStr n \<in> set reqs \<and> map_of props n = None
       \<longrightarrow> validate (PDict d) = False)"
proof -
  have none: "validate PNone = False"
    by (simp add: validate_def validate_try_def)
  have scalar: "\<not> is_dict v \<longrightarrow> validate v = False"
    by (simp add: validate_def validate_try_def)
  have empty: "validate (PDict []) = False"
    by (simp add: validate_def validate_try_def)
  have no_function: "validate (PDict d) = False" if "map_of d ''function'' = None" for d
    using that by (simp add: validate_def validate_try_def required_keys_def)
  have only_type: "validate (PDict [(''type'', PStr ''function'')]) = False"
    by (rule no_function) simp
  have undeclared: "validate (PDict d) = False"
    if "map_of d ''function'' = Some (PDict fd)" "map_of fd ''parameters'' = Some (PDict ps)"
       "map_of ps ''properties'' = Some (PDict props)"
       "map_of ps ''required'' = Some (PList reqs)"
       "PStr n \<in> set reqs" "map_of props n = None"
  proof -
    have "all_required_declared reqs (PDict props) \<noteq> Inr True"
      using that(5,6) by (rule all_required_declared_missing)
    then show ?thesis
      unfolding validate_False_iff validate_try_def using that(1-4)
      by (auto simp: and_then_Inr_iff split: if_splits)
  qed
  from none scalar empty only_type no_function undeclared show ?thesis by blast
qed

theorem validate_rejects_witness:
  "validate (PInt 3) = False \<and>
   validate (PDict [(''type'', PStr ''function''),
     (''function'', PDict [(''name'', PStr ''x''), (''description'', PStr ''d''),
       (''parameters'', PDict [(''type'', PStr ''object''), (''properties'', PDict []),
          (''required'', PList [PStr ''missing''])])])]) = False"
  using validate_rejects [of "PInt 3"
     "[(''type'', PStr ''function''),
       (''function'', PDict [(''name'', PStr ''x''), (''description'', PStr ''d''),
         (''parameters'', PDict [(''type'', PStr ''object''), (''properties'', PDict []),
            (''required'', PList [PStr ''missing''])])])]"
     "[(''name'', PStr ''x''), (''description'', PStr ''d''),
       (''parameters'', PDict [(''type'', PStr ''object''), (''properties'', PDict []),
          (''required'', PList [PStr ''missing''])])]"
     "[(''type'', PStr ''object''), (''properties'', PDict []),
       (''required'', PList [PStr ''missing''])]"
     "[]" "[PStr ''missing'']" "''missing''"]
  by simp

section \<open>What the error listing returns\<close>


lemma undeclared_required_iff:
  "undeclared_required rs pr acc = Inr errs \<longleftrightarrow>
     list_all (\<lambda>r. py_in r pr = Inr True
                   \<or> (py_in r pr = Inr False \<and> format_value r = Inr r)) rs
     \<and> errs = acc @ map RequiredNotInProperties (filter (\<lambda>r. py_in r pr = Inr False) rs)"
proof (induction rs arbitrary: acc)
  case Nil
  then show ?case by auto
next
  case (Cons r rs)
  show ?case
  proof (cases "py_in r pr")
    case (Inl e)
    then show ?thesis by simp
  next
    case (Inr found)
    show ?thesis
    proof (cases found)
      case True
      with Inr Cons.IH [of acc] show ?thesis by simp
    next
      case False
      show ?thesis
      proof (cases "has_long_int r")
        case True
        with Inr False show ?thesis by (simp add: format_value_def)
      next
        case long: False
        with Inr False Cons.IH [of "acc @ [RequiredNotInProperties r]"] show ?thesis
          by (simp add: format_value_def)
      qed
    qed
  qed
qed




text \<open>
  An undeclared name that is an int too long to format ends the run with
  \<^verbatim>\<open>ValueError\<close>.
\<close>

lemma long_int_name_raises:
  "get_validation_errors
     (PDict [(''type'', PStr ''function''),
        (''function'', PDict [(''name'', PStr ''x''), (''description'', PStr ''d''),
          (''parameters'', PDict [(''type'', PStr ''object''), (''properties'', PDict []),
             (''required'', PList [PInt (10 ^ int_max_str_digits)])])])])
     = Inl ValueError"
  by (simp add: get_validation_errors_def required_keys_def format_value_def)


text \<open>
  Claim C10. When the \<^verbatim>\<open>"function"\<close> key is there and its value is falsy (\<^verbatim>\<open>{}\<close>,
  \<^verbatim>\<open>None\<close>, \<^verbatim>\<open>""\<close>, \<^verbatim>\<open>0\<close>, ...), \<^verbatim>\<open>get_validation_errors\<close> returns early with
  \<open>MissingFunction\<close> after what it collected so far, without looking at the members of
  the value: the result is the one it gives for the dict with the key deleted.
\<close>

theorem falsy_function_is_missing:
  "map_of d ''function'' = Some v \<Longrightarrow> \<not> truthy v \<Longrightarrow>
   get_validation_errors (PDict d) =
     Inr ((if map_of d ''type'' = Some (PStr ''function'') then [] else [TypeNotFunction])
          @ [MissingFunction])
   \<and> get_validation_errors (PDict d)
       = get_validation_errors (PDict (AList.delete ''function'' d))"
  by (auto simp: get_validation_errors_def py_eq_PStr delete_conv' split: option.splits)

theorem falsy_function_is_missing_witness:
  "get_validation_errors (PDict [(''type'', PStr ''function''), (''function'', PDict [])])
     = Inr [MissingFunction]
   \<and> get_validation_errors (PDict [(''type'', PStr ''function''), (''function'', PDict [])])
     = get_validation_errors (PDict [(''type'', PStr ''function'')])"
  using falsy_function_is_missing
    [of "[(''type'', PStr ''function''), (''function'', PDict [])]" "PDict []"]
  by (auto simp: AList.delete_eq)

section \<open>The two validators agree\<close>

lemma missing_fields_all_in:
  "missing_fields ks fd acc = Inr errs \<Longrightarrow>
   \<exists>new. errs = acc @ new \<and> all_in ks fd = Inr (new = [])"
proof (induction ks arbitrary: acc)
  case Nil
  then show ?case by simp
next
  case (Cons k ks)
  from Cons.prems obtain found where f: "py_in (PStr k) fd = Inr found"
    and rest: "missing_fields ks fd (if \<not> found then acc @ [MissingField k] else acc) = Inr errs"
    by (auto simp: and_then_Inr_iff)
  from Cons.IH [OF rest] obtain new
    where new: "errs = (if \<not> found then acc @ [MissingField k] else acc) @ new"
      "all_in ks fd = Inr (new = [])"
    by blast
  show ?case
  proof (cases found)
    case True
    with new f show ?thesis by simp
  next
    case False
    with new f have "errs = acc @ (MissingField k # new)" "all_in (k # ks) fd = Inr False"
      by simp_all
    then show ?thesis by simp
  qed
qed

lemma all_required_declared_filter:
  "list_all (\<lambda>r. py_in r pr = Inr True \<or> (py_in r pr = Inr False \<and> P r)) rs \<Longrightarrow>
   all_required_declared rs pr = Inr (filter (\<lambda>r. py_in r pr = Inr False) rs = [])"
  by (induction rs) auto

lemma undeclared_required_all_declared:
  "undeclared_required rs props acc = Inr errs \<Longrightarrow>
   \<exists>new. errs = acc @ new \<and> all_required_declared rs props = Inr (new = [])"
proof -
  assume "undeclared_required rs props acc = Inr errs"
  then have ok: "list_all (\<lambda>r. py_in r props = Inr True
                    \<or> (py_in r props = Inr False \<and> format_value r = Inr r)) rs"
    and errs: "errs = acc @ map RequiredNotInProperties
                              (filter (\<lambda>r. py_in r props = Inr False) rs)"
    by (simp_all add: undeclared_required_iff)
  from ok have "all_required_declared rs props
                  = Inr (filter (\<lambda>r. py_in r props = Inr False) rs = [])"
    by (rule all_required_declared_filter)
  with errs show ?thesis by simp
qed

lemma all_in_falsy: "\<not> truthy v \<Longrightarrow> all_in required_keys v \<noteq> Inr True"
  by (cases v) (auto simp: required_keys_def)

text \<open>
  Claim C9. On every value on which \<^verbatim>\<open>get_validation_errors\<close> returns (raises nothing),
  \<^verbatim>\<open>validate\<close> returns \<^verbatim>\<open>True\<close> exactly when the list of errors is empty.
\<close>

theorem validate_iff_no_errors:
  assumes "get_validation_errors schema = Inr errs"
  shows "validate schema \<longleftrightarrow> errs = []"
proof (cases schema)
  case (PDict d)
  define ty where "ty = (case map_of d ''type'' of None \<Rightarrow> PNone | Some v \<Rightarrow> v)"
  define e0 where "e0 = (if ty \<noteq> PStr ''function'' then [TypeNotFunction] else [])"
  define fd where "fd = (case map_of d ''function'' of None \<Rightarrow> PNone | Some v \<Rightarrow> v)"
  define fd' where "fd' = (case map_of d ''function'' of None \<Rightarrow> PDict [] | Some v \<Rightarrow> v)"
  show ?thesis
  proof (cases "truthy fd")
    case False
    then have "\<not> truthy fd'"
      by (auto simp: fd_def fd'_def split: option.splits)
    then have "all_in required_keys fd' \<noteq> Inr True"
      by (rule all_in_falsy)
    then have "validate schema = False"
      unfolding validate_False_iff validate_try_def PDict
      by (auto simp: and_then_Inr_iff fd'_def split: if_splits)
    moreover have "errs \<noteq> []"
      using assms False unfolding get_validation_errors_def PDict
      by (auto simp: fd_def Let_def)
    ultimately show ?thesis by simp
  next
    case True
    then have same: "fd' = fd"
      by (auto simp: fd_def fd'_def split: option.splits)
    from assms True obtain e1 params pty props req reqs where
      e1: "missing_fields required_keys fd e0 = Inr e1" and
      params: "py_get fd ''parameters'' (PDict []) = Inr params" and
      pty: "py_get params ''type'' PNone = Inr pty" and
      props: "py_get params ''properties'' (PDict []) = Inr props" and
      req: "py_get params ''required'' (PList []) = Inr req" and
      reqs: "py_iter req = Inr reqs" and
      errs: "undeclared_required reqs props
               (if pty \<noteq> PStr ''object'' then e1 @ [ParamsTypeNotObject] else e1) = Inr errs"
      unfolding get_validation_errors_def PDict
      by (auto simp: and_then_Inr_iff Let_def py_eq_PStr fd_def ty_def e0_def)
    from missing_fields_all_in [OF e1] obtain new1
      where new1: "e1 = e0 @ new1" "all_in required_keys fd = Inr (new1 = [])"
      by blast
    from undeclared_required_all_declared [OF errs] obtain new2
      where new2:
        "errs = (if pty \<noteq> PStr ''object'' then e1 @ [ParamsTypeNotObject] else e1) @ new2"
        "all_required_declared reqs props = Inr (new2 = [])"
      by blast
    have "validate_try schema =
            Inr (ty = PStr ''function'' \<and> new1 = [] \<and> pty = PStr ''object'' \<and> new2 = [])"
      unfolding validate_try_def PDict
      using new1(2) new2(2) params pty props req reqs same
      by (simp add: py_eq_PStr fd'_def ty_def)
    moreover have "errs = [] \<longleftrightarrow>
        ty = PStr ''function'' \<and> new1 = [] \<and> pty = PStr ''object'' \<and> new2 = []"
      using new1(1) new2(1) by (auto simp: e0_def)
    ultimately show ?thesis
      by (simp add: validate_def)
  qed
qed (use assms in \<open>auto simp: get_validation_errors_def validate_def validate_try_def\<close>)

theorem validate_iff_no_errors_witness:
  "get_validation_errors
     (PDict [(''type'', PStr ''function''),
        (''function'', PDict [(''name'', PStr ''x''), (''description'', PStr ''d''),
          (''parameters'', PDict [(''type'', PStr ''object''),
             (''properties'', PDict [(''q'', PDict [(''type'', PStr ''string'')])]),
             (''required'', PList [PStr ''q''])])])]) = Inr []
   \<and> validate
     (PDict [(''type'', PStr ''function''),
        (''function'', PDict [(''name'', PStr ''x''), (''description'', PStr ''d''),
          (''parameters'', PDict [(''type'', PStr ''object''),
             (''properties'', PDict [(''q'', PDict [(''type'', PStr ''string'')])]),
             (''required'', PList [PStr ''q''])])])])
   \<and> get_validation_errors (PDict [(''type'', PStr ''function'')]) = Inr [MissingFunction]
   \<and> \<not> validate (PDict [(''type'', PStr ''function'')])"
proof -
  have ok: "get_validation_errors
     (PDict [(''type'', PStr ''function''),
        (''function'', PDict [(''name'', PStr ''x''), (''description'', PStr ''d''),
          (''parameters'', PDict [(''type'', PStr ''object''),
             (''properties'', PDict [(''q'', PDict [(''type'', PStr ''string'')])]),
             (''required'', PList [PStr ''q''])])])]) = Inr []"
    by (simp add: get_validation_errors_def required_keys_def)
  have bad: "get_validation_errors (PDict [(''type'', PStr ''function'')])
               = Inr [MissingFunction]"
    by (simp add: get_validation_errors_def)
  from ok bad validate_iff_no_errors [OF ok] validate_iff_no_errors [OF bad]
  show ?thesis by simp
qed

text \<open>
  Claim C4. \<^verbatim>\<open>validate\<close> catches every exception of its body and returns \<^verbatim>\<open>False\<close>;
  \<^verbatim>\<open>get_validation_errors\<close> has no handler. On a schema whose \<^verbatim>\<open>"parameters"\<close> is
  \<^verbatim>\<open>None\<close>, \<^verbatim>\<open>params.get("type")\<close> raises \<^verbatim>\<open>AttributeError\<close>: \<^verbatim>\<open>validate\<close> returns
  \<^verbatim>\<open>False\<close> there and \<^verbatim>\<open>get_validation_errors\<close> lets the exception out.
\<close>

theorem get_validation_errors_raises:
  "get_validation_errors
     (PDict [(''type'', PStr ''function''),
             (''function'', PDict [(''name'', PStr ''f''), (''description'', PStr ''d''),
                                   (''parameters'', PNone)])])
     = Inl AttributeError
   \<and> validate
     (PDict [(''type'', PStr ''function''),
             (''function'', PDict [(''name'', PStr ''f''), (''description'', PStr ''d''),
                                   (''parameters'', PNone)])])
     = False"
  by (simp add: get_validation_errors_def validate_def validate_try_def required_keys_def)

section \<open>The property of one parameter\<close>

lemma build_property_chain:
  "build_property c =
     set_if (param_type c = ''object'' \<and> properties c \<noteq> PNone) ''properties'' (properties c)
    (set_if (param_type c = ''array'' \<and> items c \<noteq> PNone) ''items'' (items c)
    (set_if (default_value c \<noteq> PNone) ''default'' (default_value c)
    (set_if (pattern c \<noteq> PNone) ''pattern'' (pattern c)
    (set_if (max_length c \<noteq> PNone) ''maxLength'' (max_length c)
    (set_if (min_length c \<noteq> PNone) ''minLength'' (min_length c)
    (set_if (maximum c \<noteq> PNone) ''maximum'' (maximum c)
    (set_if (minimum c \<noteq> PNone) ''minimum'' (minimum c)
    (set_if (enum_values c \<noteq> PNone) ''enum'' (enum_values c)
      [(''type'', PStr (param_type c)), (''description'', PStr (description c))]))))))))"
  unfolding build_property_def set_if_def [symmetric] Let_def ..

lemma map_of_dict_set:
  "map_of (dict_set p k v) k' = (if k' = k then Some v else map_of p k')"
  by (simp add: dict_set_def update_conv')

lemma map_of_set_if:
  "map_of (set_if b k v p) k' = (if b \<and> k' = k then Some v else map_of p k')"
  by (simp add: set_if_def map_of_dict_set)

lemma keys_set_if:
  "map_of p k = None \<Longrightarrow> map fst (set_if b k v p) = map fst p @ (if b then [k] else [])"
  by (induction p) (auto simp: set_if_def dict_set_def)

text \<open>
  Claim C6. The keys of the property \<^verbatim>\<open>_build_property\<close> returns are, in order:
  \<^verbatim>\<open>type\<close> and \<^verbatim>\<open>description\<close>, always, with the config's values; then the key of each
  optional field that is not \<^verbatim>\<open>None\<close>, and no key for one that is; \<^verbatim>\<open>items\<close> only
  when \<^verbatim>\<open>param_type\<close> is \<^verbatim>\<open>"array"\<close> and \<^verbatim>\<open>items\<close> is not \<^verbatim>\<open>None\<close>; \<^verbatim>\<open>properties\<close>
  only when \<^verbatim>\<open>param_type\<close> is \<^verbatim>\<open>"object"\<close> and \<^verbatim>\<open>properties\<close> is not \<^verbatim>\<open>None\<close>.
\<close>

theorem build_property_emits:
  "map fst (build_property config) =
     [''type'', ''description'']
     @ (if enum_values config \<noteq> PNone then [''enum''] else [])
     @ (if minimum config \<noteq> PNone then [''minimum''] else [])
     @ (if maximum config \<noteq> PNone then [''maximum''] else [])
     @ (if min_length config \<noteq> PNone then [''minLength''] else [])
     @ (if max_length config \<noteq> PNone then [''maxLength''] else [])
     @ (if pattern config \<noteq> PNone then [''pattern''] else [])
     @ (if default_value config \<noteq> PNone then [''default''] else [])
     @ (if param_type config = ''array'' \<and> items config \<noteq> PNone then [''items''] else [])
     @ (if param_type config = ''object'' \<and> properties config \<noteq> PNone
        then [''properties''] else [])
   \<and> map_of (build_property config) ''type'' = Some (PStr (param_type config))
   \<and> map_of (build_property config) ''description'' = Some (PStr (description config))"
  unfolding build_property_chain
  by (simp add: keys_set_if map_of_set_if del: append_assoc)

theorem build_property_emits_witness:
  "map fst (build_property (parameter_config ''array'' ''Lista'')) = [''type'', ''description'']
   \<and> map fst (build_property
        ((parameter_config ''string'' ''Asunto'')
           \<lparr>min_length := PInt 1, items := PDict [(''type'', PStr ''string'')]\<rparr>))
      = [''type'', ''description'', ''minLength'']
   \<and> map fst (build_property
        ((parameter_config ''array'' ''Lista'')\<lparr>items := PDict [(''type'', PStr ''string'')]\<rparr>))
      = [''type'', ''description'', ''items'']"
  using build_property_emits [of "parameter_config ''array'' ''Lista''"]
    build_property_emits [of "(parameter_config ''string'' ''Asunto'')
           \<lparr>min_length := PInt 1, items := PDict [(''type'', PStr ''string'')]\<rparr>"]
    build_property_emits [of "(parameter_config ''array'' ''Lista'')
           \<lparr>items := PDict [(''type'', PStr ''string'')]\<rparr>"]
  by (simp add: parameter_config_def)

text \<open>
  Claim C3, as the code has it. \<^verbatim>\<open>_build_property\<close> tests \<^verbatim>\<open>config.default is not None\<close>,
  not the truth value of the default: the key \<^verbatim>\<open>default\<close> is left out exactly when the
  default is \<^verbatim>\<open>None\<close>, and every other default, the falsy \<^verbatim>\<open>False\<close>, \<^verbatim>\<open>0\<close> and the
  empty string included, is emitted with its value.
\<close>

theorem build_property_default:
  "map_of (build_property config) ''default'' =
     (if default_value config = PNone then None else Some (default_value config))"
  unfolding build_property_chain
  by (simp add: map_of_set_if)

theorem build_property_default_witness:
  "map_of (build_property ((parameter_config ''integer'' ''Decimales'')
             \<lparr>default_value := PInt 0\<rparr>)) ''default'' = Some (PInt 0)
   \<and> map_of (build_property (parameter_config ''integer'' ''Decimales'')) ''default'' = None"
  using build_property_default
      [of "(parameter_config ''integer'' ''Decimales'')\<lparr>default_value := PInt 0\<rparr>"]
    build_property_default [of "parameter_config ''integer'' ''Decimales''"]
  by (simp add: parameter_config_def)

text \<open>
  Against claim C3 as it is stated: the defaults \<^verbatim>\<open>False\<close>, \<^verbatim>\<open>0\<close> and the empty
  string are falsy, and each is emitted under the key \<^verbatim>\<open>default\<close>.
\<close>

theorem falsy_default_emitted:
  "\<not> truthy (PBool False) \<and> \<not> truthy (PInt 0) \<and> \<not> truthy (PStr [])
   \<and> map_of (build_property ((parameter_config ''boolean'' ''Incluir'')
               \<lparr>default_value := PBool False\<rparr>)) ''default'' = Some (PBool False)
   \<and> map_of (build_property ((parameter_config ''integer'' ''Decimales'')
               \<lparr>default_value := PInt 0\<rparr>)) ''default'' = Some (PInt 0)
   \<and> map_of (build_property ((parameter_config ''string'' ''Prefijo'')
               \<lparr>default_value := PStr []\<rparr>)) ''default'' = Some (PStr [])"
  unfolding build_property_chain
  by (simp add: map_of_set_if parameter_config_def)

section \<open>The schema a generator call returns\<close>

lemma add_parameters_required:
  "snd (add_parameters ps (props, req)) =
     req @ map PStr (map fst (filter (\<lambda>(param_name, config). required config) ps))"
  by (induction ps arbitrary: props req) auto

text \<open>
  Claim C2. The schema \<^verbatim>\<open>create_schema\<close> returns has the fixed shape, and its
  \<^verbatim>\<open>required\<close> list is the names of the parameters whose config has \<^verbatim>\<open>required\<close> set,
  in the order in which \<^verbatim>\<open>parameters\<close> holds them: the list is filtered, never sorted.
\<close>

theorem create_schema_required_order:
  "\<exists>props. create_schema function_name descr parameters =
     PDict [(''type'', PStr ''function''),
            (''function'', PDict [
               (''name'', PStr function_name),
               (''description'', PStr descr),
               (''parameters'', PDict [
                  (''type'', PStr ''object''),
                  (''properties'', PDict props),
                  (''required'', PList (map PStr (map fst
                     (filter (\<lambda>(param_name, config). required config) parameters))))])])]"
proof -
  obtain props req where r: "add_parameters parameters ([], []) = (props, req)"
    by (cases "add_parameters parameters ([], [])")
  have "req = map PStr (map fst (filter (\<lambda>(param_name, config). required config) parameters))"
    using add_parameters_required [of parameters "[]" "[]"] r by simp
  then show ?thesis
    by (simp add: create_schema_def r)
qed

theorem create_schema_required_order_witness:
  "\<exists>props. create_schema ''send_email'' ''Envia un email''
      [(''to'', (parameter_config ''array'' ''Destinatarios'')\<lparr>required := True\<rparr>),
       (''cc'', parameter_config ''array'' ''Copia''),
       (''body'', (parameter_config ''string'' ''Contenido'')\<lparr>required := True\<rparr>)] =
     PDict [(''type'', PStr ''function''),
            (''function'', PDict [
               (''name'', PStr ''send_email''),
               (''description'', PStr ''Envia un email''),
               (''parameters'', PDict [
                  (''type'', PStr ''object''),
                  (''properties'', PDict props),
                  (''required'', PList [PStr ''to'', PStr ''body''])])])]"
  using create_schema_required_order [of "''send_email''" "''Envia un email''"
      "[(''to'', (parameter_config ''array'' ''Destinatarios'')\<lparr>required := True\<rparr>),
        (''cc'', parameter_config ''array'' ''Copia''),
        (''body'', (parameter_config ''string'' ''Contenido'')\<lparr>required := True\<rparr>)]"]
  by (simp add: parameter_config_def)

lemma add_parameters_declared:
  "add_parameters ps (props, req) = (props', req') \<Longrightarrow>
   list_all (\<lambda>r. \<exists>k. r = PStr k \<and> map_of props k \<noteq> None) req \<Longrightarrow>
   list_all (\<lambda>r. \<exists>k. r = PStr k \<and> map_of props' k \<noteq> None) req'"
proof (induction ps arbitrary: props req)
  case Nil
  then show ?case by simp
next
  case (Cons p ps)
  obtain k c where p: "p = (k, c)" by (cases p)
  let ?props = "dict_set props k (PDict (build_property c))"
  let ?req = "if required c then req @ [PStr k] else req"
  have step: "add_parameters ps (?props, ?req) = (props', req')"
    using Cons.prems(1) by (simp add: p)
  have "list_all (\<lambda>r. \<exists>k. r = PStr k \<and> map_of ?props k \<noteq> None) ?req"
    using Cons.prems(2) by (fastforce simp: list_all_iff map_of_dict_set)
  with step show ?case by (rule Cons.IH)
qed

lemma all_required_declared_True:
  "list_all (\<lambda>r. \<exists>k. r = PStr k \<and> map_of props k \<noteq> None) reqs \<Longrightarrow>
   all_required_declared reqs (PDict props) = Inr True"
  by (induction reqs) auto

text \<open>
  Claim C1. Whatever the name, the description and the parameters (in any order, with
  any configs), \<^verbatim>\<open>validate\<close> returns \<^verbatim>\<open>True\<close> on the schema \<^verbatim>\<open>create_schema\<close> returns.
\<close>

theorem create_schema_valid:
  "validate (create_schema function_name descr parameters) = True"
proof -
  obtain props req where r: "add_parameters parameters ([], []) = (props, req)"
    by (cases "add_parameters parameters ([], [])")
  have "list_all (\<lambda>r. \<exists>k. r = PStr k \<and> map_of props k \<noteq> None) req"
    using add_parameters_declared [OF r] by simp
  then have "all_required_declared req (PDict props) = Inr True"
    by (rule all_required_declared_True)
  then show ?thesis
    by (simp add: validate_def validate_try_def create_schema_def r required_keys_def)
qed

theorem create_schema_valid_witness:
  "validate (create_schema ''get_weather'' ''Clima actual''
      [(''location'', (parameter_config ''string'' ''Ciudad'')
                        \<lparr>required := True, min_length := PInt 2\<rparr>),
       (''unit'', (parameter_config ''string'' ''Unidad'')
                    \<lparr>enum_values := PList [PStr ''celsius'', PStr ''kelvin''],
                     default_value := PStr ''celsius''\<rparr>)]) = True"
  by (rule create_schema_valid)

section \<open>The configs inferred from a signature\<close>






end
